theory Spec2Isabelle
  imports Complex_Main
begin

section \<open>JavaScript numbers\<close>

text \<open>
  Every \<^verbatim>\<open>number\<close> of the program (prices, amounts, quantities read from a request)
  is an IEEE-754 binary64 value. A finite value is the rational it denotes; the result of
  an arithmetic operation is the exact rational result rounded to the nearest double,
  ties to even, with gradual underflow and overflow to an infinity. The two zeros are
  identified: the program compares numbers and divides only by sums of database integers,
  which are never the negative zero.
\<close>

datatype number = Fin rat | PosInf | NegInf | NaN

definition round_half_even :: "rat \<Rightarrow> int" where
  "round_half_even x =
     (let f = \<lfloor>x\<rfloor>; d = x - of_int f
      in if d < 1 / 2 then f
         else if 1 / 2 < d then f + 1
         else if even f then f else f + 1)"

definition pow2 :: "int \<Rightarrow> rat" where
  "pow2 e = (if 0 \<le> e then 2 ^ nat e else 1 / 2 ^ nat (- e))"

function bitlen :: "int \<Rightarrow> int" where
  "bitlen a = (if a \<le> 0 then 0 else 1 + bitlen (a div 2))"
  by pat_completeness auto
termination
  by (relation "measure nat") auto

declare bitlen.simps [simp del]

text \<open>\<open>ilog2 x\<close> is the exponent \<open>e\<close> of the binade of \<open>x \<noteq> 0\<close>: \<open>2^e \<le> |x| < 2^(e+1)\<close>.\<close>

definition ilog2 :: "rat \<Rightarrow> int" where
  "ilog2 x =
     (let (a, b) = quotient_of \<bar>x\<bar>;
          e = bitlen a - bitlen b
      in if pow2 e \<le> \<bar>x\<bar> then e else e - 1)"

text \<open>The spacing of the doubles around \<open>x\<close>: 53 significant bits, least exponent -1022.\<close>

definition quantum :: "rat \<Rightarrow> rat" where
  "quantum x = pow2 (max (ilog2 x) (- 1022) - 52)"

definition round_double :: "rat \<Rightarrow> rat" where
  "round_double x =
     (if x = 0 then 0 else of_int (round_half_even (x / quantum x)) * quantum x)"

definition to_number :: "rat \<Rightarrow> number" where
  "to_number x =
     (let r = round_double x
      in if r = 0 then Fin 0
         else if 1024 \<le> ilog2 r then (if 0 < r then PosInf else NegInf)
         else Fin r)"

definition sign_of :: "number \<Rightarrow> int" where
  "sign_of x =
     (case x of Fin a \<Rightarrow> (if 0 < a then 1 else if a < 0 then - 1 else 0)
      | PosInf \<Rightarrow> 1 | NegInf \<Rightarrow> - 1 | NaN \<Rightarrow> 0)"

definition signed_inf :: "int \<Rightarrow> number" where
  "signed_inf s = (if 0 < s then PosInf else if s < 0 then NegInf else NaN)"

fun js_neg :: "number \<Rightarrow> number" where
  "js_neg (Fin a) = Fin (- a)"
| "js_neg PosInf = NegInf"
| "js_neg NegInf = PosInf"
| "js_neg NaN = NaN"

fun js_add :: "number \<Rightarrow> number \<Rightarrow> number" where
  "js_add (Fin a) (Fin b) = to_number (a + b)"
| "js_add NaN y = NaN"
| "js_add x NaN = NaN"
| "js_add PosInf NegInf = NaN"
| "js_add NegInf PosInf = NaN"
| "js_add PosInf y = PosInf"
| "js_add NegInf y = NegInf"
| "js_add (Fin a) y = y"

definition js_sub :: "number \<Rightarrow> number \<Rightarrow> number" where
  "js_sub x y = js_add x (js_neg y)"

fun js_mul :: "number \<Rightarrow> number \<Rightarrow> number" where
  "js_mul (Fin a) (Fin b) = to_number (a * b)"
| "js_mul NaN y = NaN"
| "js_mul x NaN = NaN"
| "js_mul x y = signed_inf (sign_of x * sign_of y)"

fun js_div :: "number \<Rightarrow> number \<Rightarrow> number" where
  "js_div (Fin a) (Fin b) =
     (if b = 0 then signed_inf (sign_of (Fin a)) else to_number (a / b))"
| "js_div NaN y = NaN"
| "js_div x NaN = NaN"
| "js_div (Fin a) y = Fin 0"
| "js_div x (Fin b) = signed_inf (sign_of x * (if b < 0 then - 1 else 1))"
| "js_div x y = NaN"

fun js_abs :: "number \<Rightarrow> number" where
  "js_abs (Fin a) = Fin \<bar>a\<bar>"
| "js_abs PosInf = PosInf"
| "js_abs NegInf = PosInf"
| "js_abs NaN = NaN"

fun js_lt :: "number \<Rightarrow> number \<Rightarrow> bool" where
  "js_lt (Fin a) (Fin b) = (a < b)"
| "js_lt NaN y = False"
| "js_lt x NaN = False"
| "js_lt PosInf y = False"
| "js_lt x PosInf = True"
| "js_lt NegInf NegInf = False"
| "js_lt NegInf y = True"
| "js_lt x NegInf = False"

definition js_gt :: "number \<Rightarrow> number \<Rightarrow> bool" where
  "js_gt x y = js_lt y x"


text \<open>A decimal literal of the source or of a JSON body denotes the nearest double.\<close>

definition lit :: "rat \<Rightarrow> number" where
  "lit x = to_number x"


section \<open>Data model (prisma/schema.prisma and the DTO classes)\<close>

text \<open>
  Identifiers (\<^verbatim>\<open>cuid()\<close>) are drawn from a counter; a \<^verbatim>\<open>Date\<close> is its time value in
  milliseconds. The journal is the sequence of vendor requests and storage writes performed
  so far: every prefix of it is a point the execution has passed through.
\<close>

type_synonym ident = nat
type_synonym date = int

datatype TransactionType = BUY | SELL

datatype TransactionStatus = PENDING | SUCCESS | FAILED

record Stock =
  s_id :: ident
  s_symbol :: string
  s_name :: string
  s_price :: number
  s_lastUpdated :: date

record Portfolio =
  p_id :: ident
  p_userId :: ident
  p_name :: string
  p_createdAt :: date
  p_updatedAt :: date

record PortfolioStock =
  ps_id :: ident
  ps_portfolioId :: ident
  ps_stockId :: ident
  ps_quantity :: int
  ps_averagePrice :: number
  ps_createdAt :: date
  ps_updatedAt :: date

record Transaction =
  t_id :: ident
  t_userId :: ident
  t_stockId :: ident
  t_portfolioId :: "ident option"
  t_type :: TransactionType
  t_quantity :: int
  t_price :: number
  t_totalAmount :: number
  t_status :: TransactionStatus
  t_errorMessage :: "string option"
  t_createdAt :: date
  t_processedAt :: "date option"

datatype event =
    VendorRequest
  | StockUpsert string
  | TransactionCreate ident
  | TransactionUpdate ident TransactionStatus
  | PortfolioCreate ident
  | PortfolioStockCreate ident
  | PortfolioStockUpdate ident

record state =
  users :: "ident list"
  stocks :: "Stock list"
  portfolios :: "Portfolio list"
  portfolioStocks :: "PortfolioStock list"
  transactions :: "Transaction list"
  next_id :: ident
  journal :: "event list"

record VendorStockDto =
  v_symbol :: string
  v_name :: string
  v_price :: number

record StockListResponseDto =
  l_items :: "VendorStockDto list"
  l_nextToken :: "string option"

record 'a ApiResponseDto =
  r_status :: int
  r_data :: 'a

record BuyStockDto =
  b_price :: number
  b_quantity :: number

record BuyResult =
  success :: bool
  message :: "string option"
  transactionId :: "ident option"

record VendorApiConfig =
  baseUrl :: string
  apiKey :: string
  retryAttempts :: int
  retryDelay :: int

subsection \<open>Errors and the environment of a call\<close>

datatype http_failure =
    StatusFailure int string
  | NetworkFailure string
  | TimeoutFailure string

fun failure_message :: "http_failure \<Rightarrow> string" where
  "failure_message (StatusFailure code m) = m"
| "failure_message (NetworkFailure m) = m"
| "failure_message (TimeoutFailure m) = m"

datatype error =
    HttpException int string
  | VendorError string
  | PrismaError string
  | TypeError string

fun error_message :: "error \<Rightarrow> string" where
  "error_message (HttpException code m) = m"
| "error_message (VendorError m) = m"
| "error_message (PrismaError m) = m"
| "error_message (TypeError m) = m"

text \<open>
  What a call reads from outside the program: the clock, the vendor's answer to the
  \<open>i\<close>-th request of one observable (an Axios observable fails on a network error, a
  timeout and every status outside 2xx), the storage faults met while the price cache is
  refreshed, and \<^verbatim>\<open>Number.prototype.toString\<close>.
\<close>

record env =
  now :: date
  http_get_stocks :: "string option \<Rightarrow> nat \<Rightarrow> http_failure + StockListResponseDto ApiResponseDto"
  http_post_buy :: "string \<Rightarrow> number \<Rightarrow> number \<Rightarrow> nat \<Rightarrow> http_failure + unit"
  upsert_fails :: "string \<Rightarrow> bool"
  number_toString :: "number \<Rightarrow> string"

subsection \<open>Strings\<close>

definition upper_char :: "char \<Rightarrow> char" where
  "upper_char c =
     (let n = (of_char c :: nat) in if 97 \<le> n \<and> n \<le> 122 then char_of (n - 32) else c)"

text \<open>\<^verbatim>\<open>String.prototype.toUpperCase\<close> on ASCII symbols.\<close>

definition toUpperCase :: "string \<Rightarrow> string" where
  "toUpperCase s = map upper_char s"

section \<open>The Prisma client\<close>

text \<open>A value written to an \<^verbatim>\<open>Int\<close> column must be an integer of 32 bits.\<close>

definition as_int32 :: "number \<Rightarrow> int option" where
  "as_int32 x =
     (case x of
        Fin a \<Rightarrow>
          (if a = of_int \<lfloor>a\<rfloor> \<and> - 2147483648 \<le> a \<and> a \<le> 2147483647
           then Some \<lfloor>a\<rfloor> else None)
      | _ \<Rightarrow> None)"

definition of_int32 :: "int \<Rightarrow> number" where
  "of_int32 q = Fin (of_int q)"

definition stock_findUnique :: "state \<Rightarrow> string \<Rightarrow> Stock option" where
  "stock_findUnique st sy = find (\<lambda>s. s_symbol s = sy) (stocks st)"

definition stock_upsert :: "state \<Rightarrow> string \<Rightarrow> string \<Rightarrow> number \<Rightarrow> date \<Rightarrow> Stock \<times> state" where
  "stock_upsert st sy nm pr t =
     (case stock_findUnique st sy of
        Some s \<Rightarrow>
          (s\<lparr>s_name := nm, s_price := pr, s_lastUpdated := t\<rparr>,
           st\<lparr>stocks :=
                 map (\<lambda>r. if s_symbol r = sy
                          then r\<lparr>s_name := nm, s_price := pr, s_lastUpdated := t\<rparr> else r)
                   (stocks st),
               journal := journal st @ [StockUpsert sy]\<rparr>)
      | None \<Rightarrow>
          (let s = \<lparr>s_id = next_id st, s_symbol = sy, s_name = nm, s_price = pr,
                    s_lastUpdated = t\<rparr>
           in (s, st\<lparr>stocks := stocks st @ [s], next_id := Suc (next_id st),
                     journal := journal st @ [StockUpsert sy]\<rparr>)))"

definition transaction_create ::
  "env \<Rightarrow> state \<Rightarrow> ident \<Rightarrow> ident \<Rightarrow> TransactionType \<Rightarrow> number \<Rightarrow> number \<Rightarrow> number
     \<Rightarrow> error + Transaction \<times> state" where
  "transaction_create e st userId stockId ty qty pr totalAmount =
     (case as_int32 qty of
        None \<Rightarrow> Inl (PrismaError ''Invalid value for field quantity'')
      | Some q \<Rightarrow>
          if userId \<notin> set (users st) then Inl (PrismaError ''Foreign key constraint failed'')
          else
            (let t = \<lparr>t_id = next_id st, t_userId = userId, t_stockId = stockId,
                      t_portfolioId = None, t_type = ty, t_quantity = q, t_price = pr,
                      t_totalAmount = totalAmount, t_status = PENDING, t_errorMessage = None,
                      t_createdAt = now e, t_processedAt = None\<rparr>
             in Inr (t, st\<lparr>transactions := transactions st @ [t],
                          next_id := Suc (next_id st),
                          journal := journal st @ [TransactionCreate (t_id t)]\<rparr>)))"

text \<open>A field whose value is \<^verbatim>\<open>undefined\<close> in \<^verbatim>\<open>data\<close> is left as it is.\<close>

definition transaction_set ::
  "TransactionStatus \<Rightarrow> string option \<Rightarrow> date \<Rightarrow> Transaction \<Rightarrow> Transaction" where
  "transaction_set status errorMessage processedAt t =
     t\<lparr>t_status := status,
       t_errorMessage := (case errorMessage of None \<Rightarrow> t_errorMessage t | Some m \<Rightarrow> Some m),
       t_processedAt := Some processedAt\<rparr>"

definition transaction_update ::
  "state \<Rightarrow> ident \<Rightarrow> TransactionStatus \<Rightarrow> string option \<Rightarrow> date \<Rightarrow> error + Transaction \<times> state" where
  "transaction_update st i status errorMessage processedAt =
     (case find (\<lambda>t. t_id t = i) (transactions st) of
        None \<Rightarrow> Inl (PrismaError ''Record to update not found'')
      | Some t \<Rightarrow>
          Inr (transaction_set status errorMessage processedAt t,
               st\<lparr>transactions :=
                     map (\<lambda>r. if t_id r = i
                              then transaction_set status errorMessage processedAt r else r)
                       (transactions st),
                   journal := journal st @ [TransactionUpdate i status]\<rparr>))"

definition portfolio_findFirst :: "state \<Rightarrow> ident \<Rightarrow> Portfolio option" where
  "portfolio_findFirst st userId = find (\<lambda>p. p_userId p = userId) (portfolios st)"

definition portfolio_create :: "env \<Rightarrow> state \<Rightarrow> ident \<Rightarrow> string \<Rightarrow> error + Portfolio \<times> state" where
  "portfolio_create e st userId nm =
     (if userId \<notin> set (users st) then Inl (PrismaError ''Foreign key constraint failed'')
      else
        (let p = \<lparr>p_id = next_id st, p_userId = userId, p_name = nm,
                  p_createdAt = now e, p_updatedAt = now e\<rparr>
         in Inr (p, st\<lparr>portfolios := portfolios st @ [p], next_id := Suc (next_id st),
                      journal := journal st @ [PortfolioCreate (p_id p)]\<rparr>)))"

definition portfolioStock_findUnique :: "state \<Rightarrow> ident \<Rightarrow> ident \<Rightarrow> PortfolioStock option" where
  "portfolioStock_findUnique st portfolioId stockId =
     find (\<lambda>r. ps_portfolioId r = portfolioId \<and> ps_stockId r = stockId) (portfolioStocks st)"

definition portfolioStock_update ::
  "env \<Rightarrow> state \<Rightarrow> ident \<Rightarrow> number \<Rightarrow> number \<Rightarrow> error + state" where
  "portfolioStock_update e st i qty avg =
     (case as_int32 qty of
        None \<Rightarrow> Inl (PrismaError ''Invalid value for field quantity'')
      | Some q \<Rightarrow>
          (case find (\<lambda>r. ps_id r = i) (portfolioStocks st) of
             None \<Rightarrow> Inl (PrismaError ''Record to update not found'')
           | Some x \<Rightarrow>
               Inr (st\<lparr>portfolioStocks :=
                         map (\<lambda>r. if ps_id r = i
                                  then r\<lparr>ps_quantity := q, ps_averagePrice := avg,
                                         ps_updatedAt := now e\<rparr>
                                  else r)
                           (portfolioStocks st),
                       journal := journal st @ [PortfolioStockUpdate i]\<rparr>)))"

definition portfolioStock_create ::
  "env \<Rightarrow> state \<Rightarrow> ident \<Rightarrow> ident \<Rightarrow> number \<Rightarrow> number \<Rightarrow> error + state" where
  "portfolioStock_create e st portfolioId stockId qty avg =
     (case as_int32 qty of
        None \<Rightarrow> Inl (PrismaError ''Invalid value for field quantity'')
      | Some q \<Rightarrow>
          (let r = \<lparr>ps_id = next_id st, ps_portfolioId = portfolioId, ps_stockId = stockId,
                    ps_quantity = q, ps_averagePrice = avg, ps_createdAt = now e,
                    ps_updatedAt = now e\<rparr>
           in Inr (st\<lparr>portfolioStocks := portfolioStocks st @ [r],
                      next_id := Suc (next_id st),
                      journal := journal st @ [PortfolioStockCreate (ps_id r)]\<rparr>)))"


section \<open>Configuration (config/configuration.ts)\<close>

text \<open>
  Of \<^verbatim>\<open>process.env\<close> the two numeric variables are given as the result of
  \<^verbatim>\<open>parseInt\<close>, \<open>None\<close> standing for \<^verbatim>\<open>NaN\<close> (variable unset or not a number).
\<close>

record process_env =
  VENDOR_API_BASE_URL :: string
  VENDOR_API_KEY :: string
  API_RETRY_ATTEMPTS :: "int option"
  API_RETRY_DELAY :: "int option"

text \<open>\<^verbatim>\<open>parseInt(v) || d\<close>: \<^verbatim>\<open>NaN\<close> and \<open>0\<close> are falsy.\<close>

definition or_default :: "int option \<Rightarrow> int \<Rightarrow> int" where
  "or_default v d = (case v of None \<Rightarrow> d | Some n \<Rightarrow> if n = 0 then d else n)"

definition getConfiguration :: "process_env \<Rightarrow> VendorApiConfig" where
  "getConfiguration pe =
     \<lparr>baseUrl = VENDOR_API_BASE_URL pe,
      apiKey = VENDOR_API_KEY pe,
      retryAttempts = or_default (API_RETRY_ATTEMPTS pe) 3,
      retryDelay = or_default (API_RETRY_DELAY pe) 1000\<rparr>"

section \<open>The retry operator\<close>

text \<open>
  \<^verbatim>\<open>retry({count, delay})\<close> of RxJS subscribes to its source; when the source fails it
  waits \<open>delay\<close> milliseconds and subscribes again, whatever the error is, unless \<open>count\<close>
  failures have been retried already, in which case the error is passed on. A \<open>count\<close>
  that is not positive retries nothing. \<open>src i\<close> is the outcome of the \<open>i\<close>-th
  subscription, that is of the \<open>i\<close>-th HTTP request.
\<close>

record 'a retried =
  outcome :: "http_failure + 'a"
  attempts :: nat
  waited :: int

fun resubscribe :: "nat \<Rightarrow> (nat \<Rightarrow> http_failure + 'a) \<Rightarrow> nat \<Rightarrow> (http_failure + 'a) \<times> nat" where
  "resubscribe 0 src i = (src i, Suc i)"
| "resubscribe (Suc n) src i =
     (case src i of
        Inr v \<Rightarrow> (Inr v, Suc i)
      | Inl err \<Rightarrow> resubscribe n src (Suc i))"

definition retry :: "int \<Rightarrow> int \<Rightarrow> (nat \<Rightarrow> http_failure + 'a) \<Rightarrow> 'a retried" where
  "retry count delay src =
     (let (r, k) = resubscribe (nat count) src 0
      in \<lparr>outcome = r, attempts = k, waited = (int k - 1) * max 0 delay\<rparr>)"

section \<open>StocksService (modules/stocks/stocks.service.ts)\<close>

text \<open>
  The upserts of \<^verbatim>\<open>updateStockCache\<close> are separate statements started together and awaited
  with \<^verbatim>\<open>Promise.all\<close>: one that fails rejects the whole, which the \<^verbatim>\<open>catch\<close> only
  logs, and does not undo the others. They are taken in the order of the list.
\<close>

definition cache_item :: "env \<Rightarrow> state \<Rightarrow> VendorStockDto \<Rightarrow> state" where
  "cache_item e st vendorStock =
     (if upsert_fails e (toUpperCase (v_symbol vendorStock)) then st
      else snd (stock_upsert st (toUpperCase (v_symbol vendorStock)) (v_name vendorStock)
                  (v_price vendorStock) (now e)))"

definition updateStockCache :: "env \<Rightarrow> state \<Rightarrow> VendorStockDto list \<Rightarrow> state" where
  "updateStockCache e st vendorStocks = foldl (cache_item e) st vendorStocks"

definition getStocksFromVendor ::
  "VendorApiConfig \<Rightarrow> env \<Rightarrow> state \<Rightarrow> string option \<Rightarrow> (error + StockListResponseDto) \<times> state" where
  "getStocksFromVendor cfg e st nextToken =
     (let params = (if nextToken = Some [] then None else nextToken);
          r = retry (retryAttempts cfg) (retryDelay cfg) (http_get_stocks e params);
          st1 = st\<lparr>journal := journal st @ replicate (attempts r) VendorRequest\<rparr>
      in case outcome r of
           Inl err \<Rightarrow> (Inl (HttpException 503 ''Vendor API temporarily unavailable''), st1)
         | Inr response \<Rightarrow>
             if r_status response \<noteq> 200
             then (Inl (HttpException 502 ''Invalid response from vendor API''), st1)
             else
               (let stockData = r_data response
                in (Inr stockData, updateStockCache e st1 (l_items stockData))))"

definition getStockBySymbol ::
  "VendorApiConfig \<Rightarrow> env \<Rightarrow> state \<Rightarrow> string \<Rightarrow> (error + Stock option) \<times> state" where
  "getStockBySymbol cfg e st symbol =
     (let stock = stock_findUnique st (toUpperCase symbol);
          fiveMinutesAgo = now e - 5 * 60 * 1000
      in if (case stock of None \<Rightarrow> True | Some s \<Rightarrow> s_lastUpdated s < fiveMinutesAgo)
         then
           (case getStocksFromVendor cfg e st None of
              (Inl err, st1) \<Rightarrow> (Inl err, st1)
            | (Inr vendorStocks, st1) \<Rightarrow>
                (case find (\<lambda>s. toUpperCase (v_symbol s) = toUpperCase symbol)
                        (l_items vendorStocks) of
                   None \<Rightarrow> (Inr None, st1)
                 | Some vendorStock \<Rightarrow>
                     (let (stock', st2) =
                            stock_upsert st1 (toUpperCase symbol) (v_name vendorStock)
                              (v_price vendorStock) (now e)
                      in (Inr (Some stock'), st2))))
         else (Inr stock, st))"

definition updateUserPortfolio ::
  "env \<Rightarrow> state \<Rightarrow> ident \<Rightarrow> ident \<Rightarrow> number \<Rightarrow> number \<Rightarrow> (error + unit) \<times> state" where
  "updateUserPortfolio e st userId stockId quantity price =
     (case (case portfolio_findFirst st userId of
              Some p \<Rightarrow> Inr (p, st)
            | None \<Rightarrow> portfolio_create e st userId ''Default Portfolio'') of
        Inl err \<Rightarrow> (Inl err, st)
      | Inr (portfolio, st1) \<Rightarrow>
          (case portfolioStock_findUnique st1 (p_id portfolio) stockId of
             Some existingPosition \<Rightarrow>
               (let totalShares = js_add (of_int32 (ps_quantity existingPosition)) quantity;
                    totalCost =
                      js_add
                        (js_mul (of_int32 (ps_quantity existingPosition))
                           (ps_averagePrice existingPosition))
                        (js_mul quantity price);
                    newAveragePrice = js_div totalCost totalShares
                in case portfolioStock_update e st1 (ps_id existingPosition) totalShares
                          newAveragePrice of
                     Inl err \<Rightarrow> (Inl err, st1)
                   | Inr st2 \<Rightarrow> (Inr (), st2))
           | None \<Rightarrow>
               (case portfolioStock_create e st1 (p_id portfolio) stockId quantity price of
                  Inl err \<Rightarrow> (Inl err, st1)
                | Inr st2 \<Rightarrow> (Inr (), st2))))"

text \<open>The POST observable of \<^verbatim>\<open>buyStock\<close>, piped through \<^verbatim>\<open>retry\<close> and awaited.\<close>

definition vendor_buy ::
  "VendorApiConfig \<Rightarrow> env \<Rightarrow> state \<Rightarrow> string \<Rightarrow> BuyStockDto \<Rightarrow> (error + unit) \<times> state" where
  "vendor_buy cfg e st symbol buyData =
     (let r = retry (retryAttempts cfg) (retryDelay cfg)
                (http_post_buy e (toUpperCase symbol) (b_price buyData) (b_quantity buyData));
          st1 = st\<lparr>journal := journal st @ replicate (attempts r) VendorRequest\<rparr>
      in case outcome r of
           Inl f \<Rightarrow> (Inl (VendorError (failure_message f)), st1)
         | Inr u \<Rightarrow> (Inr (), st1))"

text \<open>The inner \<^verbatim>\<open>try\<close> block of \<^verbatim>\<open>buyStock\<close>, and its \<^verbatim>\<open>catch (vendorError)\<close>.\<close>

definition buyStock_try ::
  "VendorApiConfig \<Rightarrow> env \<Rightarrow> state \<Rightarrow> string \<Rightarrow> BuyStockDto \<Rightarrow> ident \<Rightarrow> Stock \<Rightarrow> Transaction
     \<Rightarrow> (error + BuyResult) \<times> state" where
  "buyStock_try cfg e st symbol buyData userId currentStock transaction =
     (case vendor_buy cfg e st symbol buyData of
        (Inl err, st1) \<Rightarrow> (Inl err, st1)
      | (Inr u, st1) \<Rightarrow>
          (case transaction_update st1 (t_id transaction) SUCCESS None (now e) of
             Inl err \<Rightarrow> (Inl err, st1)
           | Inr (t, st2) \<Rightarrow>
               (case updateUserPortfolio e st2 userId (s_id currentStock)
                       (b_quantity buyData) (b_price buyData) of
                  (Inl err, st3) \<Rightarrow> (Inl err, st3)
                | (Inr u', st3) \<Rightarrow>
                    (Inr \<lparr>success = True, message = None,
                          transactionId = Some (t_id transaction)\<rparr>, st3))))"

definition buyStock_catch ::
  "env \<Rightarrow> state \<Rightarrow> Transaction \<Rightarrow> error \<Rightarrow> (error + BuyResult) \<times> state" where
  "buyStock_catch e st transaction vendorError =
     (case transaction_update st (t_id transaction) FAILED
             (Some (error_message vendorError)) (now e) of
        Inl err \<Rightarrow> (Inl err, st)
      | Inr (t, st1) \<Rightarrow>
          (Inr \<lparr>success = False, message = Some (error_message vendorError),
                transactionId = Some (t_id transaction)\<rparr>, st1))"

definition tolerance_message :: "env \<Rightarrow> number \<Rightarrow> number \<Rightarrow> string" where
  "tolerance_message e requested current =
     ''Price '' @ number_toString e requested @ '' is outside 2% tolerance of current price ''
       @ number_toString e current"

definition buyStock ::
  "VendorApiConfig \<Rightarrow> env \<Rightarrow> state \<Rightarrow> string \<Rightarrow> BuyStockDto \<Rightarrow> ident
     \<Rightarrow> (error + BuyResult) \<times> state" where
  "buyStock cfg e st symbol buyData userId =
     (case getStockBySymbol cfg e st symbol of
        (Inl err, st1) \<Rightarrow> (Inl err, st1)
      | (Inr None, st1) \<Rightarrow> (Inl (HttpException 404 (''Stock '' @ symbol @ '' not found'')), st1)
      | (Inr (Some currentStock), st1) \<Rightarrow>
          (let priceDifference = js_abs (js_sub (s_price currentStock) (b_price buyData));
               tolerance = js_mul (s_price currentStock) (lit (2 / 100))
           in if js_gt priceDifference tolerance
              then (Inr \<lparr>success = False,
                         message = Some (tolerance_message e (b_price buyData)
                                           (s_price currentStock)),
                         transactionId = None\<rparr>, st1)
              else
                (case transaction_create e st1 userId (s_id currentStock) BUY
                        (b_quantity buyData) (b_price buyData)
                        (js_mul (b_price buyData) (b_quantity buyData)) of
                   Inl err \<Rightarrow> (Inl err, st1)
                 | Inr (transaction, st2) \<Rightarrow>
                     (case buyStock_try cfg e st2 symbol buyData userId currentStock
                             transaction of
                        (Inr result, st3) \<Rightarrow> (Inr result, st3)
                      | (Inl vendorError, st3) \<Rightarrow>
                          buyStock_catch e st3 transaction vendorError))))"


section \<open>TransactionsService (modules/transactions/transactions.service.ts)\<close>

record TransactionDto =
  d_id :: ident
  d_userId :: ident
  d_stockId :: ident
  d_symbol :: string
  d_type :: TransactionType
  d_quantity :: int
  d_price :: number
  d_total :: number
  d_status :: TransactionStatus
  d_errorMessage :: "string option"
  d_createdAt :: date
  d_processedAt :: "date option"






record DateRangeTransactions =
  successful :: "TransactionDto list"
  failed :: "TransactionDto list"
  pending :: "TransactionDto list"





section \<open>Kinds of journal entries\<close>

fun cache_write :: "event \<Rightarrow> bool" where
  "cache_write (StockUpsert sy) = True"
| "cache_write w = False"

fun portfolio_write :: "event \<Rightarrow> bool" where
  "portfolio_write (PortfolioCreate i) = True"
| "portfolio_write (PortfolioStockCreate i) = True"
| "portfolio_write (PortfolioStockUpdate i) = True"
| "portfolio_write w = False"

fun ledger_write :: "event \<Rightarrow> bool" where
  "ledger_write (TransactionCreate i) = True"
| "ledger_write (TransactionUpdate i status) = True"
| "ledger_write w = False"


section \<open>Concrete inputs\<close>






definition unset_env :: process_env where
  "unset_env =
     \<lparr>VENDOR_API_BASE_URL = ''https://vendor.example'', VENDOR_API_KEY = ''key'',
      API_RETRY_ATTEMPTS = None, API_RETRY_DELAY = None\<rparr>"

text \<open>
  A store caching two prices read at time 0, and an environment, 400 seconds later, in
  which the vendor lists new prices for both and confirms every purchase.
\<close>

definition aapl_row :: Stock where
  "aapl_row =
     \<lparr>s_id = 1, s_symbol = ''AAPL'', s_name = ''Apple Inc.'', s_price = Fin 100,
      s_lastUpdated = 0\<rparr>"

definition msft_row :: Stock where
  "msft_row =
     \<lparr>s_id = 2, s_symbol = ''MSFT'', s_name = ''Microsoft'', s_price = Fin 49,
      s_lastUpdated = 0\<rparr>"

definition cached_store :: state where
  "cached_store =
     \<lparr>users = [7],
      stocks = [aapl_row, msft_row],
      portfolios = [],
      portfolioStocks = [],
      transactions = [],
      next_id = 3,
      journal = []\<rparr>"

definition listing_page :: StockListResponseDto where
  "listing_page =
     \<lparr>l_items = [\<lparr>v_symbol = ''AAPL'', v_name = ''Apple Inc.'', v_price = Fin 101\<rparr>,
                  \<lparr>v_symbol = ''MSFT'', v_name = ''Microsoft'', v_price = Fin 50\<rparr>],
      l_nextToken = None\<rparr>"

definition listing_env :: env where
  "listing_env =
     \<lparr>now = 400000,
      http_get_stocks = (\<lambda>params i. Inr \<lparr>r_status = 200, r_data = listing_page\<rparr>),
      http_post_buy = (\<lambda>symbol price quantity i. Inr ()),
      upsert_fails = (\<lambda>symbol. False),
      number_toString = (\<lambda>x. ''?'')\<rparr>"


definition default_config :: VendorApiConfig where
  "default_config = getConfiguration unset_env"





definition far_request :: BuyStockDto where
  "far_request = \<lparr>b_price = Fin 200, b_quantity = Fin 1\<rparr>"

definition refreshed_aapl_row :: Stock where
  "refreshed_aapl_row = aapl_row\<lparr>s_price := Fin 101, s_lastUpdated := 400000\<rparr>"








section \<open>Sequences of fills\<close>











section \<open>Rounding to a double\<close>










lemma ilog2_abs: "ilog2 \<bar>x\<bar> = ilog2 x"
  by (simp add: ilog2_def)


















section \<open>Ledger transitions\<close>




section \<open>Retrying vendor requests\<close>





section \<open>Daily statistics\<close>





section \<open>The price cache\<close>

















lemma stock_upsert_journal:
  "journal (snd (stock_upsert st sy nm pr t)) = journal st @ [StockUpsert sy]"
  by (simp add: stock_upsert_def Let_def split: option.splits)

lemma updateStockCache_journal:
  "\<exists>ws. journal (updateStockCache e st vs) = journal st @ ws \<and> (\<forall>w\<in>set ws. cache_write w)"
  unfolding updateStockCache_def
proof (induction vs arbitrary: st)
  case Nil
  then show ?case by simp
next
  case (Cons v vs)
  obtain ws where ws: "journal (foldl (cache_item e) (cache_item e st v) vs)
                         = journal (cache_item e st v) @ ws" "\<forall>w\<in>set ws. cache_write w"
    using Cons.IH by blast
  show ?case
  proof (cases "upsert_fails e (toUpperCase (v_symbol v))")
    case True
    then have "cache_item e st v = st" by (simp add: cache_item_def)
    with ws show ?thesis by auto
  next
    case False
    with ws have "journal (foldl (cache_item e) (cache_item e st v) vs)
                    = journal st @ (StockUpsert (toUpperCase (v_symbol v)) # ws)"
      by (simp add: cache_item_def stock_upsert_journal)
    moreover have "\<forall>w\<in>set (StockUpsert (toUpperCase (v_symbol v)) # ws). cache_write w"
      using ws(2) by simp
    ultimately show ?thesis by (metis foldl_Cons)
  qed
qed

lemma resubscribe_counts: "i < snd (resubscribe n src i)"
  by (induction n arbitrary: i) (auto split: sum.splits intro: Suc_lessD)

lemma retry_attempts_positive: "0 < attempts (retry count delay src)"
  using resubscribe_counts [of 0 "nat count" src]
  by (cases "resubscribe (nat count) src 0") (simp add: retry_def)

lemma getStocksFromVendor_journal:
  "\<exists>n ws. 0 < n \<and>
      journal (snd (getStocksFromVendor cfg e st tok)) = journal st @ replicate n VendorRequest @ ws \<and>
      (\<forall>w\<in>set ws. cache_write w)"
proof -
  define r where "r = retry (retryAttempts cfg) (retryDelay cfg)
                        (http_get_stocks e (if tok = Some [] then None else tok))"
  define st1 where "st1 = st\<lparr>journal := journal st @ replicate (attempts r) VendorRequest\<rparr>"
  have pos: "0 < attempts r" unfolding r_def by (rule retry_attempts_positive)
  have cases: "snd (getStocksFromVendor cfg e st tok) = st1 \<or>
               (\<exists>vs. snd (getStocksFromVendor cfg e st tok) = updateStockCache e st1 vs)"
    by (auto simp add: getStocksFromVendor_def Let_def r_def st1_def split: sum.splits)
  then show ?thesis
  proof
    assume "snd (getStocksFromVendor cfg e st tok) = st1"
    then have "journal (snd (getStocksFromVendor cfg e st tok))
                 = journal st @ replicate (attempts r) VendorRequest @ []"
      by (simp add: st1_def)
    with pos show ?thesis by (metis empty_iff list.set(1))
  next
    assume "\<exists>vs. snd (getStocksFromVendor cfg e st tok) = updateStockCache e st1 vs"
    then obtain vs where vs: "snd (getStocksFromVendor cfg e st tok) = updateStockCache e st1 vs"
      by blast
    obtain ws where ws: "journal (updateStockCache e st1 vs) = journal st1 @ ws"
      "\<forall>w\<in>set ws. cache_write w"
      using updateStockCache_journal by blast
    from vs ws have "journal (snd (getStocksFromVendor cfg e st tok))
                       = journal st @ replicate (attempts r) VendorRequest @ ws"
      by (simp add: st1_def)
    with pos ws(2) show ?thesis by blast
  qed
qed


lemma getStockBySymbol_fresh:
  "stock_findUnique st (toUpperCase symbol) = Some s \<Longrightarrow> now e - 300000 \<le> s_lastUpdated s
   \<Longrightarrow> getStockBySymbol cfg e st symbol = (Inr (Some s), st)"
  by (simp add: getStockBySymbol_def Let_def)

lemma getStockBySymbol_refresh:
  "\<forall>s. stock_findUnique st (toUpperCase symbol) = Some s \<longrightarrow> s_lastUpdated s < now e - 300000
   \<Longrightarrow> getStockBySymbol cfg e st symbol =
        (case getStocksFromVendor cfg e st None of
           (Inl err, st1) \<Rightarrow> (Inl err, st1)
         | (Inr page, st1) \<Rightarrow>
             (case find (\<lambda>v. toUpperCase (v_symbol v) = toUpperCase symbol) (l_items page) of
                None \<Rightarrow> (Inr None, st1)
              | Some v \<Rightarrow>
                  (Inr (Some (fst (stock_upsert st1 (toUpperCase symbol) (v_name v) (v_price v)
                                     (now e)))),
                   snd (stock_upsert st1 (toUpperCase symbol) (v_name v) (v_price v) (now e)))))"
  by (cases "stock_findUnique st (toUpperCase symbol)")
     (auto simp add: getStockBySymbol_def Let_def split: prod.splits sum.splits option.splits)






section \<open>Buying\<close>

lemma stock_upsert_frame:
  "transactions (snd (stock_upsert st sy nm pr t)) = transactions st \<and>
   portfolios (snd (stock_upsert st sy nm pr t)) = portfolios st \<and>
   portfolioStocks (snd (stock_upsert st sy nm pr t)) = portfolioStocks st \<and>
   users (snd (stock_upsert st sy nm pr t)) = users st"
  by (simp add: stock_upsert_def Let_def split: option.splits)

lemma updateStockCache_frame:
  "transactions (updateStockCache e st vs) = transactions st \<and>
   portfolios (updateStockCache e st vs) = portfolios st \<and>
   portfolioStocks (updateStockCache e st vs) = portfolioStocks st \<and>
   users (updateStockCache e st vs) = users st"
  unfolding updateStockCache_def
proof (induction vs arbitrary: st)
  case Nil
  then show ?case by simp
next
  case (Cons v vs)
  have "transactions (cache_item e st v) = transactions st \<and>
        portfolios (cache_item e st v) = portfolios st \<and>
        portfolioStocks (cache_item e st v) = portfolioStocks st \<and>
        users (cache_item e st v) = users st"
    by (simp add: cache_item_def stock_upsert_frame)
  with Cons.IH [of "cache_item e st v"] show ?case by simp
qed

lemma getStocksFromVendor_frame:
  "transactions (snd (getStocksFromVendor cfg e st tok)) = transactions st \<and>
   portfolios (snd (getStocksFromVendor cfg e st tok)) = portfolios st \<and>
   portfolioStocks (snd (getStocksFromVendor cfg e st tok)) = portfolioStocks st \<and>
   users (snd (getStocksFromVendor cfg e st tok)) = users st"
  by (simp add: getStocksFromVendor_def Let_def updateStockCache_frame split: sum.splits)

lemma getStockBySymbol_cases:
  obtains
    (fresh) s where "getStockBySymbol cfg e st symbol = (Inr (Some s), st)"
  | (failed) err st1 where "getStocksFromVendor cfg e st None = (Inl err, st1)"
      and "getStockBySymbol cfg e st symbol = (Inl err, st1)"
  | (unlisted) page st1 where "getStocksFromVendor cfg e st None = (Inr page, st1)"
      and "getStockBySymbol cfg e st symbol = (Inr None, st1)"
  | (listed) page st1 and v :: VendorStockDto
      where "getStocksFromVendor cfg e st None = (Inr page, st1)"
      and "getStockBySymbol cfg e st symbol =
             (Inr (Some (fst (stock_upsert st1 (toUpperCase symbol) (v_name v) (v_price v)
                                (now e)))),
              snd (stock_upsert st1 (toUpperCase symbol) (v_name v) (v_price v) (now e)))"
proof (cases "\<forall>s. stock_findUnique st (toUpperCase symbol) = Some s \<longrightarrow>
                  s_lastUpdated s < now e - 300000")
  case False
  then obtain s where "stock_findUnique st (toUpperCase symbol) = Some s"
    and "now e - 300000 \<le> s_lastUpdated s"
    by auto
  then have "getStockBySymbol cfg e st symbol = (Inr (Some s), st)"
    by (rule getStockBySymbol_fresh)
  then show ?thesis by (rule fresh)
next
  case True
  note step = getStockBySymbol_refresh [OF True, of cfg]
  obtain q st1 where vendor: "getStocksFromVendor cfg e st None = (q, st1)"
    by (cases "getStocksFromVendor cfg e st None")
  show ?thesis
  proof (cases q)
    case (Inl err)
    with vendor step show ?thesis by (intro failed [of err st1]) simp_all
  next
    case (Inr page)
    show ?thesis
    proof (cases "find (\<lambda>v. toUpperCase (v_symbol v) = toUpperCase symbol) (l_items page)")
      case None
      with Inr vendor step show ?thesis by (intro unlisted [of page st1]) simp_all
    next
      case (Some v)
      with Inr vendor step show ?thesis by (intro listed [of page st1 v]) simp_all
    qed
  qed
qed

lemma getStockBySymbol_frame:
  "transactions (snd (getStockBySymbol cfg e st symbol)) = transactions st \<and>
   portfolios (snd (getStockBySymbol cfg e st symbol)) = portfolios st \<and>
   portfolioStocks (snd (getStockBySymbol cfg e st symbol)) = portfolioStocks st \<and>
   users (snd (getStockBySymbol cfg e st symbol)) = users st"
proof (cases rule: getStockBySymbol_cases [of cfg e st symbol])
  case (fresh s)
  then show ?thesis by simp
next
  case (failed err st1)
  with getStocksFromVendor_frame [of cfg e st None] show ?thesis by simp
next
  case (unlisted page st1)
  with getStocksFromVendor_frame [of cfg e st None] show ?thesis by simp
next
  case (listed page st1 v)
  with getStocksFromVendor_frame [of cfg e st None] show ?thesis
    by (simp add: stock_upsert_frame)
qed

lemma getStockBySymbol_journal:
  "\<exists>ws. journal (snd (getStockBySymbol cfg e st symbol)) = journal st @ ws \<and>
        (\<forall>w\<in>set ws. \<not> portfolio_write w \<and> \<not> ledger_write w)"
proof -
  obtain q st1 where vendor: "getStocksFromVendor cfg e st None = (q, st1)"
    by (cases "getStocksFromVendor cfg e st None")
  obtain n ws where j1: "journal st1 = journal st @ replicate n VendorRequest @ ws"
    and ws: "\<forall>w\<in>set ws. cache_write w"
    using getStocksFromVendor_journal [of cfg e st None] vendor by auto
  have quiet: "\<forall>w\<in>set (replicate n VendorRequest @ ws). \<not> portfolio_write w \<and> \<not> ledger_write w"
  proof
    fix w
    assume "w \<in> set (replicate n VendorRequest @ ws)"
    then have "w = VendorRequest \<or> cache_write w" using ws by auto
    then show "\<not> portfolio_write w \<and> \<not> ledger_write w" by (cases w) auto
  qed
  show ?thesis
  proof (cases rule: getStockBySymbol_cases [of cfg e st symbol])
    case (fresh s)
    then have "journal (snd (getStockBySymbol cfg e st symbol)) = journal st @ []" by simp
    then show ?thesis by (metis empty_iff list.set(1))
  next
    case (failed err st1')
    with vendor j1 quiet show ?thesis by auto
  next
    case (unlisted page st1')
    with vendor j1 quiet show ?thesis by auto
  next
    case (listed page st1' v)
    with vendor have "journal (snd (getStockBySymbol cfg e st symbol))
                 = journal st @ ((replicate n VendorRequest @ ws) @ [StockUpsert (toUpperCase symbol)])"
      by (simp add: stock_upsert_journal j1)
    moreover have "\<forall>w\<in>set ((replicate n VendorRequest @ ws) @ [StockUpsert (toUpperCase symbol)]).
                     \<not> portfolio_write w \<and> \<not> ledger_write w"
      using quiet by auto
    ultimately show ?thesis by blast
  qed
qed

lemma buyStock_rejected:
  "getStockBySymbol cfg e st symbol = (Inr (Some currentStock), st1) \<Longrightarrow>
   js_gt (js_abs (js_sub (s_price currentStock) (b_price buyData)))
     (js_mul (s_price currentStock) (lit (2 / 100))) \<Longrightarrow>
   buyStock cfg e st symbol buyData userId =
     (Inr \<lparr>success = False,
           message = Some (tolerance_message e (b_price buyData) (s_price currentStock)),
           transactionId = None\<rparr>, st1)"
  by (simp add: buyStock_def Let_def)














text \<open>
  Claim C4, as stated: a request rejected by the tolerance check leaves all stored state
  unchanged. It does not hold: when the cached price is stale the price lookup refreshes
  the cache before the check, and the rejected request leaves new prices in the stock
  table.
\<close>

theorem C4_rejected_after_refresh:
  "fst (buyStock default_config listing_env cached_store ''AAPL'' far_request 7)
     = Inr \<lparr>success = False,
            message = Some (tolerance_message listing_env (Fin 200) (Fin 101)),
            transactionId = None\<rparr> \<and>
   map s_price (stocks cached_store) = [Fin 100, Fin 49] \<and>
   map s_price (stocks (snd (buyStock default_config listing_env cached_store ''AAPL''
                               far_request 7))) = [Fin 101, Fin 50]"
  by code_simp

text \<open>
  Claim C4, amended: when the price lookup yields a current price and the request violates
  the tolerance, \<^verbatim>\<open>buyStock\<close> returns \<open>success = false\<close> with the message and no
  transaction id, and creates no Transaction row: the Transaction, Portfolio and
  PortfolioStock tables are unchanged, and the only requests and writes of the call are
  those of the price lookup (vendor requests and upserts of stock rows).
\<close>

theorem C4_rejection_opens_no_transaction:
  assumes "fst (getStockBySymbol cfg e st symbol) = Inr (Some currentStock)"
    and "js_gt (js_abs (js_sub (s_price currentStock) (b_price buyData)))
           (js_mul (s_price currentStock) (lit (2 / 100)))"
  shows "buyStock cfg e st symbol buyData userId =
           (Inr \<lparr>success = False,
                 message = Some (tolerance_message e (b_price buyData) (s_price currentStock)),
                 transactionId = None\<rparr>, snd (getStockBySymbol cfg e st symbol)) \<and>
         transactions (snd (buyStock cfg e st symbol buyData userId)) = transactions st \<and>
         portfolios (snd (buyStock cfg e st symbol buyData userId)) = portfolios st \<and>
         portfolioStocks (snd (buyStock cfg e st symbol buyData userId)) = portfolioStocks st \<and>
         (\<exists>ws. journal (snd (buyStock cfg e st symbol buyData userId)) = journal st @ ws \<and>
               (\<forall>w\<in>set ws. \<not> portfolio_write w \<and> \<not> ledger_write w))"
proof -
  have lookup: "getStockBySymbol cfg e st symbol =
                  (Inr (Some currentStock), snd (getStockBySymbol cfg e st symbol))"
    using assms(1) by (simp add: prod_eq_iff)
  from buyStock_rejected [OF lookup assms(2)]
  have run: "buyStock cfg e st symbol buyData userId =
           (Inr \<lparr>success = False,
                 message = Some (tolerance_message e (b_price buyData) (s_price currentStock)),
                 transactionId = None\<rparr>, snd (getStockBySymbol cfg e st symbol))" .
  with getStockBySymbol_frame [of cfg e st symbol] getStockBySymbol_journal [of cfg e st symbol]
  show ?thesis by simp
qed

theorem C4_rejection_opens_no_transaction_witness:
  "fst (getStockBySymbol default_config listing_env cached_store ''AAPL'')
     = Inr (Some refreshed_aapl_row) \<and>
   js_gt (js_abs (js_sub (s_price refreshed_aapl_row) (b_price far_request)))
     (js_mul (s_price refreshed_aapl_row) (lit (2 / 100))) \<and>
   fst (buyStock default_config listing_env cached_store ''AAPL'' far_request 7)
     = Inr \<lparr>success = False,
            message = Some (tolerance_message listing_env (Fin 200) (Fin 101)),
            transactionId = None\<rparr> \<and>
   transactions (snd (buyStock default_config listing_env cached_store ''AAPL'' far_request 7))
     = []"
proof -
  have h1: "fst (getStockBySymbol default_config listing_env cached_store ''AAPL'')
              = Inr (Some refreshed_aapl_row)"
    by code_simp
  have h2: "js_gt (js_abs (js_sub (s_price refreshed_aapl_row) (b_price far_request)))
              (js_mul (s_price refreshed_aapl_row) (lit (2 / 100)))"
    by code_simp
  have price: "s_price refreshed_aapl_row = Fin 101" "b_price far_request = Fin 200"
    by (simp_all add: refreshed_aapl_row_def far_request_def)
  have none: "transactions cached_store = []"
    by (simp add: cached_store_def)
  from C4_rejection_opens_no_transaction [OF h1 h2, of 7]
  have run: "buyStock default_config listing_env cached_store ''AAPL'' far_request 7 =
           (Inr \<lparr>success = False,
                 message = Some (tolerance_message listing_env (b_price far_request)
                                   (s_price refreshed_aapl_row)),
                 transactionId = None\<rparr>,
            snd (getStockBySymbol default_config listing_env cached_store ''AAPL''))"
    and rows: "transactions (snd (buyStock default_config listing_env cached_store ''AAPL''
                              far_request 7)) = transactions cached_store"
    by blast+
  from run price
  have "fst (buyStock default_config listing_env cached_store ''AAPL'' far_request 7)
          = Inr \<lparr>success = False,
                 message = Some (tolerance_message listing_env (Fin 200) (Fin 101)),
                 transactionId = None\<rparr>"
    by simp
  moreover from rows none
  have "transactions (snd (buyStock default_config listing_env cached_store ''AAPL''
                              far_request 7)) = []"
    by simp
  ultimately show ?thesis using h1 h2 by simp
qed



















section \<open>Integers are exact doubles\<close>












section \<open>Positions\<close>









end
